theory Spec2Isabelle
  imports Complex_Main
begin

section \<open>Ticker normalization (api/index.ts, cleanTicker)\<close>

text \<open>
  The source:
  \<^verbatim>\<open>export const cleanTicker = (ticker: string): string =>
    ticker.replace(/^['"]+|['"]+$/g, '').toUpperCase();\<close>

  A string is a list of code units; the characters a ticker is made of are ASCII, and
  \<open>toUpperCase\<close> is modelled on that range: the letters a to z (code units 97 to 122)
  move down by 32, every other code unit stays.

  The regular expression is global and has two alternatives. The first, \<open>^['"]+\<close>, can
  only match at index 0 and takes the longest run of quote characters there. The scan then
  goes on to the right; at an index after 0 only the second alternative, \<open>['"]+$\<close>, can
  match, and it does at the first index from which every remaining character is a quote.
  Each match is replaced by the empty string.
\<close>

definition isQuote :: "char \<Rightarrow> bool" where
  "isQuote c = (c = CHR 0x27 \<or> c = CHR 0x22)"

text \<open>The scan for \<open>['"]+$\<close>: copy characters until the rest is a non-empty run of quotes.\<close>

fun stripTrailingQuotes :: "string \<Rightarrow> string" where
  "stripTrailingQuotes [] = []"
| "stripTrailingQuotes (c # cs) =
     (if list_all isQuote (c # cs) then [] else c # stripTrailingQuotes cs)"

definition replaceQuotes :: "string \<Rightarrow> string" where
  "replaceQuotes s = stripTrailingQuotes (dropWhile isQuote s)"

definition toUpperChar :: "char \<Rightarrow> char" where
  "toUpperChar c =
     (let n = (of_char c :: nat) in if 97 \<le> n \<and> n \<le> 122 then char_of (n - 32) else c)"

definition toUpperCase :: "string \<Rightarrow> string" where
  "toUpperCase s = map toUpperChar s"

definition cleanTicker :: "string \<Rightarrow> string" where
  "cleanTicker ticker = toUpperCase (replaceQuotes ticker)"

subsection \<open>Facts about the two passes\<close>













subsection \<open>Claims about cleanTicker\<close>

text \<open>
  C1. The claim reads: cleanTicker strips the quotes and the whitespace around the ticker
  and uppercases the rest, so that the input \<open>'aapl'\<close> followed by one space gives
  \<open>AAPL\<close>. The code has no step that removes whitespace: on that input the string does not
  end with a quote, the trailing alternative does not match, and the closing quote and the
  space both stay. The theorem evaluates the code there.
\<close>

theorem cleanTicker_keeps_whitespace:
  "cleanTicker (CHR 0x27 # ''aapl'' @ [CHR 0x27, CHR '' '']) = ''AAPL'' @ [CHR 0x27, CHR '' '']"
  by code_simp


section \<open>Screener conditions (QueryBuilder: addCondition, removeCondition)\<close>

text \<open>
  The query is \<open>{ operator: 'AND', operands: [] }\<close>; a condition is an object with an
  operator and a list of operands (a field name and one value, or a pair of values).
  The source:
  \<^verbatim>\<open>const addCondition = () => {
    const newCondition = { operator: 'GT', operands: ['marketCap', 0] };
    setQuery(prev => ({ ...prev, operands: [...prev.operands, newCondition] }));
  };
  const removeCondition = (index: number) => {
    setQuery(prev => ({
      ...prev,
      operands: prev.operands.filter((_: any, i: number) => i !== index)
    }));
  };\<close>
  Each function is modelled by the state update it passes to \<open>setQuery\<close>.
\<close>

datatype operand = StrOperand string | NumOperand int | ListOperand "operand list"

datatype condition = Condition (cond_operator: string) (cond_operands: "operand list")

record Query =
  operator :: string
  operands :: "condition list"

definition initialQuery :: Query where
  "initialQuery = \<lparr>operator = ''AND'', operands = []\<rparr>"

definition newCondition :: condition where
  "newCondition = Condition ''GT'' [StrOperand ''marketCap'', NumOperand 0]"

definition addCondition :: "Query \<Rightarrow> Query" where
  "addCondition prev = prev\<lparr>operands := operands prev @ [newCondition]\<rparr>"

text \<open>\<open>filter((_, i) => i !== index)\<close>: every element is paired with its index.\<close>

definition filterIndexNot :: "nat \<Rightarrow> 'a list \<Rightarrow> 'a list" where
  "filterIndexNot index xs =
     map fst (filter (\<lambda>(_, i). i \<noteq> index) (zip xs [0..<length xs]))"

definition removeCondition :: "nat \<Rightarrow> Query \<Rightarrow> Query" where
  "removeCondition index prev = prev\<lparr>operands := filterIndexNot index (operands prev)\<rparr>"

lemma filterIndexNot_beyond: "length xs \<le> n \<Longrightarrow> filterIndexNot n xs = xs"
proof -
  assume le: "length xs \<le> n"
  have "filter (\<lambda>(_, i). i \<noteq> n) (zip xs [0..<length xs]) = zip xs [0..<length xs]"
  proof (rule filter_True, clarify)
    fix a
    assume "(a, n) \<in> set (zip xs [0..<length xs])"
    then have "n \<in> set [0..<length xs]" by (rule set_zip_rightD)
    with le show False by simp
  qed
  then show ?thesis by (simp add: filterIndexNot_def)
qed

lemma filterIndexNot_snoc: "filterIndexNot (length xs) (xs @ [x]) = xs"
proof -
  have "zip (xs @ [x]) [0..<length (xs @ [x])] = zip xs [0..<length xs] @ [(x, length xs)]"
    by simp
  then have "filterIndexNot (length xs) (xs @ [x]) = filterIndexNot (length xs) xs"
    by (simp add: filterIndexNot_def)
  then show ?thesis by (simp add: filterIndexNot_beyond)
qed

text \<open>
  C6. For every condition list, adding a condition (it lands at index \<open>length L\<close>) and
  then removing the condition at that index gives back the query as it was: the same
  conditions in the same order, hence the same length.
\<close>

theorem add_then_remove_condition:
  "removeCondition (length (operands q)) (addCondition q) = q
     \<and> operands (removeCondition (length (operands q)) (addCondition q)) = operands q
     \<and> length (operands (removeCondition (length (operands q)) (addCondition q)))
         = length (operands q)"
  by (simp add: removeCondition_def addCondition_def filterIndexNot_snoc)

section \<open>The dashboard view (Dashboard, StockGrid, SignalsPanel, NewsPanel)\<close>

text \<open>
  The components return markup; the model keeps the part of it the claims count: one
  element per card or entry, the placeholder paragraphs, and the sections of the page.
  The item types \<open>StockData\<close>, \<open>NewsItem\<close> and \<open>Signal\<close> are declared in a types module
  that the panels only pass through to the cards, so they are type parameters here.
  \<^verbatim>\<open>StockGrid:    {stocks.map((stock) => (<StockCard key={stock.ticker} ... />))}
  SignalsPanel: {signals.length === 0 ? (<p>No signals available</p>)
                   : (signals.map((signal, index) => (<div key={index} ...>...</div>)))}
  NewsPanel:    {news.length === 0 ? (<p>No news available</p>)
                   : (news.slice(0, 5).map((item, index) => (<NewsCard key={index} news={item} />)))}\<close>
\<close>

datatype ('s, 'n, 'g) element =
    StockCard 's
  | SignalEntry 'g
  | NewsCard 'n
  | Paragraph string
  | LoadingSpinner
  | ErrorMessage string
  | AIChatWidget
  | Section string "('s, 'n, 'g) element list"

record ('s, 'n, 'g) DashboardData =
  stocks :: "'s list"
  news :: "'n list"
  signals :: "'g list"
  timestamp :: string

definition StockGrid :: "'s list \<Rightarrow> ('s, 'n, 'g) element list" where
  "StockGrid stocks_prop = map StockCard stocks_prop"

definition SignalsPanel :: "'g list \<Rightarrow> ('s, 'n, 'g) element list" where
  "SignalsPanel signals_prop =
     (if length signals_prop = 0 then [Paragraph ''No signals available'']
      else map SignalEntry signals_prop)"

definition NewsPanel :: "'n list \<Rightarrow> ('s, 'n, 'g) element list" where
  "NewsPanel news_prop =
     (if length news_prop = 0 then [Paragraph ''No news available'']
      else map NewsCard (take 5 news_prop))"

text \<open>
  Dashboard shows the spinner while loading, the error box when the error string is
  truthy (a non-empty string), a notice when there is no data, and the page otherwise.
\<close>

definition Dashboard ::
  "bool \<Rightarrow> string option \<Rightarrow> ('s, 'n, 'g) DashboardData option \<Rightarrow> ('s, 'n, 'g) element list" where
  "Dashboard loading_now error_now data_now =
     (if loading_now then [LoadingSpinner]
      else case error_now of
        Some (c # cs) \<Rightarrow> [ErrorMessage (c # cs)]
      | _ \<Rightarrow>
        (case data_now of
           None \<Rightarrow> [Paragraph ''No Data Available'']
         | Some d \<Rightarrow>
             [Section ''Stock Portfolio'' (StockGrid (stocks d)),
              Section ''AI Trading Signals'' (SignalsPanel (signals d)),
              Section ''Market Sentiment'' (NewsPanel (news d)),
              Section ''AI Assistant'' [AIChatWidget]]))"

fun stockCards :: "('s, 'n, 'g) element \<Rightarrow> nat" where
  "stockCards (StockCard _) = 1"
| "stockCards (Section _ es) = sum_list (map stockCards es)"
| "stockCards _ = 0"

fun signalEntries :: "('s, 'n, 'g) element \<Rightarrow> nat" where
  "signalEntries (SignalEntry _) = 1"
| "signalEntries (Section _ es) = sum_list (map signalEntries es)"
| "signalEntries _ = 0"

fun newsCards :: "('s, 'n, 'g) element \<Rightarrow> nat" where
  "newsCards (NewsCard _) = 1"
| "newsCards (Section _ es) = sum_list (map newsCards es)"
| "newsCards _ = 0"

definition countAll :: "('a \<Rightarrow> nat) \<Rightarrow> 'a list \<Rightarrow> nat" where
  "countAll f es = sum_list (map f es)"

lemma countAll_map_one: "countAll f (map g xs) = length xs" if "\<And>x. f (g x) = 1"
  using that by (induction xs) (simp_all add: countAll_def)

lemma countAll_map_zero: "countAll f (map g xs) = 0" if "\<And>x. f (g x) = 0"
  using that by (induction xs) (simp_all add: countAll_def)

lemma StockGrid_counts:
  "countAll stockCards (StockGrid xs) = length xs"
  "countAll signalEntries (StockGrid xs) = 0"
  "countAll newsCards (StockGrid xs) = 0"
  by (simp_all add: StockGrid_def countAll_map_one countAll_map_zero)

lemma SignalsPanel_counts:
  "countAll stockCards (SignalsPanel xs) = 0"
  "countAll signalEntries (SignalsPanel xs) = length xs"
  "countAll newsCards (SignalsPanel xs) = 0"
  by (simp_all add: SignalsPanel_def countAll_map_one countAll_map_zero)
     (simp_all add: countAll_def)

lemma NewsPanel_counts:
  "countAll stockCards (NewsPanel xs) = 0"
  "countAll signalEntries (NewsPanel xs) = 0"
  "countAll newsCards (NewsPanel xs) = min (length xs) 5"
  by (simp_all add: NewsPanel_def countAll_map_one countAll_map_zero)
     (simp_all add: countAll_def)

lemma Dashboard_counts:
  "countAll stockCards (Dashboard False None (Some d)) = length (stocks d)"
  "countAll signalEntries (Dashboard False None (Some d)) = length (signals d)"
  "countAll newsCards (Dashboard False None (Some d)) = min (length (news d)) 5"
  by (simp_all add: Dashboard_def countAll_def StockGrid_counts [unfolded countAll_def]
      SignalsPanel_counts [unfolded countAll_def] NewsPanel_counts [unfolded countAll_def])

text \<open>
  C4. For a fetched bundle (not loading, no error) the page holds one stock card per
  stock, one signal entry per signal and \<open>min (length news) 5\<close> news cards, so never more
  than five; for a bundle with 2 stocks, 3 news items and 1 signal these are 2 stock
  cards, 1 signal entry and 3 news cards.
\<close>

theorem dashboard_renders_bundle:
  "countAll stockCards (Dashboard False None (Some d)) = length (stocks d)
     \<and> countAll signalEntries (Dashboard False None (Some d)) = length (signals d)
     \<and> countAll newsCards (Dashboard False None (Some d)) = min (length (news d)) 5
     \<and> countAll newsCards (Dashboard False None (Some d)) \<le> 5
     \<and> (length (stocks d) = 2 \<and> length (news d) = 3 \<and> length (signals d) = 1 \<longrightarrow>
          countAll stockCards (Dashboard False None (Some d)) = 2
          \<and> countAll signalEntries (Dashboard False None (Some d)) = 1
          \<and> countAll newsCards (Dashboard False None (Some d)) = 3)"
  by (simp add: Dashboard_counts)

theorem dashboard_renders_bundle_witness:
  "countAll stockCards (Dashboard False None (Some
      \<lparr>stocks = [''TCS.NS'', ''INFY.NS''], news = [1, 2, 3 :: nat], signals = [''buy''],
       timestamp = ''2024-01-01T00:00:00Z''\<rparr>)) = 2
   \<and> countAll signalEntries (Dashboard False None (Some
      \<lparr>stocks = [''TCS.NS'', ''INFY.NS''], news = [1, 2, 3 :: nat], signals = [''buy''],
       timestamp = ''2024-01-01T00:00:00Z''\<rparr>)) = 1
   \<and> countAll newsCards (Dashboard False None (Some
      \<lparr>stocks = [''TCS.NS'', ''INFY.NS''], news = [1, 2, 3 :: nat], signals = [''buy''],
       timestamp = ''2024-01-01T00:00:00Z''\<rparr>)) = 3"
  using dashboard_renders_bundle
    [of "\<lparr>stocks = [''TCS.NS'', ''INFY.NS''], news = [1, 2, 3 :: nat], signals = [''buy''],
       timestamp = ''2024-01-01T00:00:00Z''\<rparr>"]
  by simp

section \<open>Display styles (NewsCard.getSentimentColor, SignalsPanel.getSignalColor)\<close>

text \<open>
  \<^verbatim>\<open>const getSentimentColor = (sentiment: string) => {
    switch (sentiment.toUpperCase()) {
      case 'POSITIVE': return { bg: 'bg-green-50', text: 'text-green-700', border: 'border-green-200', icon: ... };
      case 'NEGATIVE': return { bg: 'bg-red-50', text: 'text-red-700', border: 'border-red-200', icon: ... };
      case 'NEUTRAL':  return { bg: 'bg-gray-50', text: 'text-gray-700', border: 'border-gray-200', icon: ... };
      default:         return { bg: 'bg-gray-50', text: 'text-gray-700', border: 'border-gray-200', icon: ... };
    }
  };
  const getSignalColor = (type: string) => {
    switch (type) {
      case 'buy': return 'text-green-600 bg-green-50';
      case 'sell': return 'text-red-600 bg-red-50';
      case 'hold': return 'text-yellow-600 bg-yellow-50';
      default: return 'text-gray-600 bg-gray-50';
    }
  };\<close>
  The four icons are pictographs outside ASCII (a rising chart, a falling chart, a bar
  chart and a newspaper); they are named by a datatype.
\<close>

datatype icon = ChartIncreasing | ChartDecreasing | BarChart | Newspaper

record SentimentStyle =
  bg :: string
  text_class :: string
  border :: string
  icon :: icon

definition positiveStyle :: SentimentStyle where
  "positiveStyle = \<lparr>bg = ''bg-green-50'', text_class = ''text-green-700'',
     border = ''border-green-200'', icon = ChartIncreasing\<rparr>"

definition negativeStyle :: SentimentStyle where
  "negativeStyle = \<lparr>bg = ''bg-red-50'', text_class = ''text-red-700'',
     border = ''border-red-200'', icon = ChartDecreasing\<rparr>"

definition neutralStyle :: SentimentStyle where
  "neutralStyle = \<lparr>bg = ''bg-gray-50'', text_class = ''text-gray-700'',
     border = ''border-gray-200'', icon = BarChart\<rparr>"

definition defaultStyle :: SentimentStyle where
  "defaultStyle = \<lparr>bg = ''bg-gray-50'', text_class = ''text-gray-700'',
     border = ''border-gray-200'', icon = Newspaper\<rparr>"

definition getSentimentColor :: "string \<Rightarrow> SentimentStyle" where
  "getSentimentColor sentiment =
     (let u = toUpperCase sentiment in
      if u = ''POSITIVE'' then positiveStyle
      else if u = ''NEGATIVE'' then negativeStyle
      else if u = ''NEUTRAL'' then neutralStyle
      else defaultStyle)"

definition getSignalColor :: "string \<Rightarrow> string" where
  "getSignalColor type =
     (if type = ''buy'' then ''text-green-600 bg-green-50''
      else if type = ''sell'' then ''text-red-600 bg-red-50''
      else if type = ''hold'' then ''text-yellow-600 bg-yellow-50''
      else ''text-gray-600 bg-gray-50'')"

text \<open>
  C8. Both mappers are total functions of the string: neither has a failing branch, each
  returns one of four fixed styles, and every value that is not one of the recognised
  ones (for the sentiment: after uppercasing) gets the gray default style.
\<close>

theorem style_mappers_total:
  "getSentimentColor s \<in> {positiveStyle, negativeStyle, neutralStyle, defaultStyle}
     \<and> (toUpperCase s \<notin> {''POSITIVE'', ''NEGATIVE'', ''NEUTRAL''} \<longrightarrow>
          getSentimentColor s = defaultStyle)
     \<and> getSignalColor t \<in> {''text-green-600 bg-green-50'', ''text-red-600 bg-red-50'',
          ''text-yellow-600 bg-yellow-50'', ''text-gray-600 bg-gray-50''}
     \<and> (t \<notin> {''buy'', ''sell'', ''hold''} \<longrightarrow> getSignalColor t = ''text-gray-600 bg-gray-50'')"
  by (simp add: getSentimentColor_def getSignalColor_def Let_def)

theorem style_mappers_total_witness:
  "getSentimentColor ''mixed'' = defaultStyle
     \<and> getSignalColor ''strong_buy'' = ''text-gray-600 bg-gray-50''"
proof -
  have u: "toUpperCase ''mixed'' = ''MIXED''" by code_simp
  have a: "toUpperCase ''mixed'' \<notin> {''POSITIVE'', ''NEGATIVE'', ''NEUTRAL''}"
    unfolding u by simp
  have b: "''strong_buy'' \<notin> {''buy'', ''sell'', ''hold''}" by simp
  from style_mappers_total [of "''mixed''" "''strong_buy''"] a b show ?thesis by blast
qed

section \<open>The dashboard hook (hooks/useDashboardData.ts)\<close>

text \<open>
  \<^verbatim>\<open>export const useDashboardData = (tickers: string[], refreshInterval = 60000) => {
    const [data, setData] = useState<DashboardData | null>(null);
    const [loading, setLoading] = useState(true);
    const [error, setError] = useState<string | null>(null);
    useEffect(() => {
      let isMounted = true;
      const fetchData = async () => {
        try {
          setLoading(true);
          const dashboardData = await getDashboardData(tickers);
          if (isMounted) { setData(dashboardData); setError(null); }
        } catch (err) {
          if (isMounted) { setError(err instanceof Error ? err.message : 'Failed to fetch data'); }
        } finally {
          if (isMounted) { setLoading(false); }
        }
      };
      if (tickers.length > 0) {
        fetchData();
        const interval = setInterval(fetchData, refreshInterval);
        return () => { isMounted = false; clearInterval(interval); };
      } else {
        setData(null); setLoading(false); setError(null);
      }
    }, [tickers, refreshInterval]);
    return { data, loading, error };
  };\<close>

  The hook's three state cells are a record. A call of \<open>fetchData\<close> has two halves: the
  synchronous one up to the \<open>await\<close> (it sets \<open>loading\<close> and issues the request) and the
  one that runs when the request settles. The value a rejected request throws is either an
  \<open>Error\<close> object with its message or something else.
\<close>

datatype thrown = ErrorObject string | OtherValue

datatype 'd outcome = Resolved 'd | Rejected thrown

record 'd HookState =
  data :: "'d option"
  loading :: bool
  error :: "string option"

definition initialState :: "'d HookState" where
  "initialState = \<lparr>data = None, loading = True, error = None\<rparr>"

definition errorMessage :: "thrown \<Rightarrow> string" where
  "errorMessage err = (case err of ErrorObject m \<Rightarrow> m | OtherValue \<Rightarrow> ''Failed to fetch data'')"

definition fetchData_settle :: "bool \<Rightarrow> 'd outcome \<Rightarrow> 'd HookState \<Rightarrow> 'd HookState" where
  "fetchData_settle isMounted result st =
     (let st1 = (case result of
                   Resolved dashboardData \<Rightarrow>
                     if isMounted then st\<lparr>data := Some dashboardData, error := None\<rparr> else st
                 | Rejected err \<Rightarrow>
                     if isMounted then st\<lparr>error := Some (errorMessage err)\<rparr> else st)
      in if isMounted then st1\<lparr>loading := False\<rparr> else st1)"

text \<open>
  Around the state: the interval the current effect registered (with the ticker list its
  \<open>fetchData\<close> closes over), the requests in flight that the current effect issued (their
  \<open>isMounted\<close> is still true), the requests in flight of effects already cleaned up (their
  \<open>isMounted\<close> is false), and the log of every \<open>getDashboardData\<close> call made so far.
\<close>

record 'd Hook =
  state :: "'d HookState"
  timer :: "(string list \<times> nat) option"
  live :: nat
  stale :: nat
  requests :: "string list list"

definition fetchData_call :: "string list \<Rightarrow> 'd Hook \<Rightarrow> 'd Hook" where
  "fetchData_call tickers h =
     h\<lparr>state := (state h)\<lparr>loading := True\<rparr>, live := live h + 1,
       requests := requests h @ [tickers]\<rparr>"

definition useDashboardData_cleanup :: "'d Hook \<Rightarrow> 'd Hook" where
  "useDashboardData_cleanup h = h\<lparr>timer := None, stale := stale h + live h, live := 0\<rparr>"

definition useDashboardData_effect :: "string list \<Rightarrow> nat \<Rightarrow> 'd Hook \<Rightarrow> 'd Hook" where
  "useDashboardData_effect tickers refreshInterval h =
     (if length tickers > 0
      then (fetchData_call tickers h)\<lparr>timer := Some (tickers, refreshInterval)\<rparr>
      else h\<lparr>state := (state h)\<lparr>data := None, loading := False, error := None\<rparr>\<rparr>)"

definition useDashboardData_mount :: "string list \<Rightarrow> nat \<Rightarrow> 'd Hook" where
  "useDashboardData_mount tickers refreshInterval =
     useDashboardData_effect tickers refreshInterval
       \<lparr>state = initialState, timer = None, live = 0, stale = 0, requests = []\<rparr>"

text \<open>
  What can happen to a mounted hook: the interval fires, a request of the current effect
  or of an earlier one settles, the component renders with changed dependencies (the old
  effect is cleaned up, then the effect runs again), or the component unmounts.
\<close>

datatype 'd event =
    Tick
  | SettleLive "'d outcome"
  | SettleStale "'d outcome"
  | Rerender "string list" nat
  | Unmount

fun step :: "'d event \<Rightarrow> 'd Hook \<Rightarrow> 'd Hook" where
  "step Tick h = (case timer h of None \<Rightarrow> h | Some (tickers, _) \<Rightarrow> fetchData_call tickers h)"
| "step (SettleLive result) h =
     (if live h = 0 then h
      else h\<lparr>state := fetchData_settle True result (state h), live := live h - 1\<rparr>)"
| "step (SettleStale result) h =
     (if stale h = 0 then h
      else h\<lparr>state := fetchData_settle False result (state h), stale := stale h - 1\<rparr>)"
| "step (Rerender tickers refreshInterval) h =
     useDashboardData_effect tickers refreshInterval (useDashboardData_cleanup h)"
| "step Unmount h = useDashboardData_cleanup h"

fun run :: "'d Hook \<Rightarrow> 'd event list \<Rightarrow> 'd Hook" where
  "run h [] = h"
| "run h (ev # evs) = run (step ev h) evs"

fun isRerender :: "'d event \<Rightarrow> bool" where
  "isRerender (Rerender _ _) = True"
| "isRerender _ = False"

text \<open>
  The other definition of the hook in the repository (src/unnamed/part_008) has neither the
  \<open>isMounted\<close> flag nor the test of \<open>tickers.length\<close>: its effect is
  \<^verbatim>\<open>fetchData()
  const interval = setInterval(fetchData, 60000)
  return () => clearInterval(interval)\<close>
\<close>

definition useDashboardData_unguarded_effect :: "string list \<Rightarrow> 'd Hook \<Rightarrow> 'd Hook" where
  "useDashboardData_unguarded_effect tickers h =
     (fetchData_call tickers h)\<lparr>timer := Some (tickers, 60000)\<rparr>"

definition useDashboardData_unguarded_mount :: "string list \<Rightarrow> 'd Hook" where
  "useDashboardData_unguarded_mount tickers =
     useDashboardData_unguarded_effect tickers
       \<lparr>state = initialState, timer = None, live = 0, stale = 0, requests = []\<rparr>"

subsection \<open>An empty ticker list\<close>

definition idle :: "'d Hook \<Rightarrow> bool" where
  "idle h = (timer h = None \<and> live h = 0
     \<and> state h = \<lparr>data = None, loading = False, error = None\<rparr>)"

lemma fetchData_settle_unmounted: "fetchData_settle False result st = st"
  by (cases result) (simp_all add: fetchData_settle_def)

lemma step_idle:
  "idle h \<Longrightarrow> \<not> isRerender ev \<Longrightarrow> idle (step ev h) \<and> requests (step ev h) = requests h"
  by (cases ev)
     (simp_all add: idle_def fetchData_settle_unmounted useDashboardData_cleanup_def)

lemma run_idle:
  "idle h \<Longrightarrow> \<forall>ev \<in> set evs. \<not> isRerender ev \<Longrightarrow>
     idle (run h evs) \<and> requests (run h evs) = requests h"
proof (induction evs arbitrary: h)
  case Nil
  then show ?case by simp
next
  case (Cons ev evs)
  from Cons.prems have s: "idle (step ev h) \<and> requests (step ev h) = requests h"
    by (simp add: step_idle)
  with Cons.IH [of "step ev h"] Cons.prems show ?case by simp
qed

lemma effect_empty_idle:
  "idle (useDashboardData_effect [] n (useDashboardData_cleanup h))"
  "requests (useDashboardData_effect [] n (useDashboardData_cleanup h)) = requests h"
  by (simp_all add: idle_def useDashboardData_effect_def useDashboardData_cleanup_def)

text \<open>
  C2, as amended. For the hook of hooks/useDashboardData.ts: when the effect runs with an
  empty ticker list (at mount, or after a render that changed the dependencies, whatever
  the hook did before), it issues no request and registers no interval, the state is at
  once \<open>data = null\<close>, \<open>loading = false\<close>, \<open>error = null\<close>, and whatever happens afterwards,
  short of the dependencies changing again, no request is ever issued and the state stays
  so.
\<close>

theorem empty_tickers_no_fetch:
  assumes "\<forall>ev \<in> set evs. \<not> isRerender ev"
  shows "requests (run (step (Rerender [] n) h) evs) = requests h
     \<and> state (run (step (Rerender [] n) h) evs) = \<lparr>data = None, loading = False, error = None\<rparr>
     \<and> timer (run (step (Rerender [] n) h) evs) = None
     \<and> requests (run (useDashboardData_mount [] n) evs) = []
     \<and> state (run (useDashboardData_mount [] n) evs)
         = \<lparr>data = None, loading = False, error = None\<rparr>"
proof -
  have a: "idle (step (Rerender [] n) h)" "requests (step (Rerender [] n) h) = requests h"
    by (simp_all add: effect_empty_idle)
  have m: "useDashboardData_mount [] n
      = useDashboardData_effect [] n (useDashboardData_cleanup
          \<lparr>state = initialState, timer = None, live = 0, stale = 0, requests = []\<rparr>)"
    by (simp add: useDashboardData_mount_def useDashboardData_cleanup_def)
  have b: "idle (useDashboardData_mount [] n)" "requests (useDashboardData_mount [] n) = []"
    unfolding m by (simp_all add: effect_empty_idle)
  from run_idle [OF a(1) assms] a(2) run_idle [OF b(1) assms] b(2)
  show ?thesis by (simp add: idle_def)
qed

theorem empty_tickers_no_fetch_witness:
  "requests (run (useDashboardData_mount [] 60000)
       [Tick, SettleLive (Rejected OtherValue), Tick, Unmount :: nat event]) = []
   \<and> state (run (useDashboardData_mount [] 60000)
       [Tick, SettleLive (Rejected OtherValue), Tick, Unmount :: nat event])
      = \<lparr>data = None, loading = False, error = None\<rparr>"
proof -
  have "\<forall>ev \<in> set [Tick, SettleLive (Rejected OtherValue), Tick, Unmount :: nat event].
      \<not> isRerender ev"
    by simp
  from empty_tickers_no_fetch [OF this, of 60000] show ?thesis by simp
qed

text \<open>
  C2 as stated speaks of the dashboard hook without more; the hook of
  src/unnamed/part_008 calls \<open>fetchData\<close> for every ticker list, the empty one too.
\<close>

theorem unguarded_hook_fetches_empty_list:
  "requests (useDashboardData_unguarded_mount [] :: nat Hook) = [[]]
     \<and> loading (state (useDashboardData_unguarded_mount [] :: nat Hook)) = True"
  by (simp add: useDashboardData_unguarded_mount_def useDashboardData_unguarded_effect_def
      fetchData_call_def initialState_def)

subsection \<open>A failing fetch\<close>

text \<open>
  C3, as amended. When a request of the current effect is rejected (the effect that issued
  it has not been cleaned up, so its \<open>isMounted\<close> is true), then after it settles
  \<open>loading\<close> is false, \<open>error\<close> holds the message of the thrown \<open>Error\<close>, or
  \<open>Failed to fetch data\<close> for any other thrown value, and \<open>data\<close> is what it was.
\<close>

theorem fetch_failure_keeps_data:
  assumes "0 < live h"
  shows "loading (state (step (SettleLive (Rejected err)) h)) = False
     \<and> error (state (step (SettleLive (Rejected err)) h)) = Some (errorMessage err)
     \<and> data (state (step (SettleLive (Rejected err)) h)) = data (state h)"
  using assms by (simp add: fetchData_settle_def)

theorem fetch_failure_keeps_data_witness:
  "loading (state (step (SettleLive (Rejected (ErrorObject ''Network Error'')))
       (run (useDashboardData_mount [''TCS.NS''] 60000)
          [SettleLive (Resolved (7 :: nat)), Tick]))) = False
   \<and> error (state (step (SettleLive (Rejected (ErrorObject ''Network Error'')))
       (run (useDashboardData_mount [''TCS.NS''] 60000)
          [SettleLive (Resolved (7 :: nat)), Tick]))) = Some ''Network Error''
   \<and> data (state (step (SettleLive (Rejected (ErrorObject ''Network Error'')))
       (run (useDashboardData_mount [''TCS.NS''] 60000)
          [SettleLive (Resolved (7 :: nat)), Tick]))) = Some 7"
proof -
  let ?h = "run (useDashboardData_mount [''TCS.NS''] 60000) [SettleLive (Resolved (7 :: nat)), Tick]"
  have l: "0 < live ?h"
    by (simp add: useDashboardData_mount_def useDashboardData_effect_def fetchData_call_def)
  have d: "data (state ?h) = Some 7"
    by (simp add: useDashboardData_mount_def useDashboardData_effect_def fetchData_call_def
        fetchData_settle_def)
  from fetch_failure_keeps_data [OF l, of "ErrorObject ''Network Error''"] d
  show ?thesis by (simp add: errorMessage_def)
qed

text \<open>
  C3 as stated covers every failing fetch. A request whose effect has been cleaned
  up before it settles (the ticker list changed while it was in flight) is discarded by
  the \<open>isMounted\<close> tests: after it fails, \<open>loading\<close> is still true (the fetch of the new
  effect set it) and \<open>error\<close> is still null.
\<close>

theorem stale_failure_is_discarded:
  "loading (state (run (useDashboardData_mount [''TCS.NS''] 60000)
       [Rerender [''INFY.NS''] 60000,
        SettleStale (Rejected (ErrorObject ''Network Error'')) :: nat event])) = True
   \<and> error (state (run (useDashboardData_mount [''TCS.NS''] 60000)
       [Rerender [''INFY.NS''] 60000,
        SettleStale (Rejected (ErrorObject ''Network Error'')) :: nat event])) = None
   \<and> stale (run (useDashboardData_mount [''TCS.NS''] 60000)
       [Rerender [''INFY.NS''] 60000 :: nat event]) = 1"
  by (simp add: useDashboardData_mount_def useDashboardData_effect_def fetchData_call_def
      useDashboardData_cleanup_def fetchData_settle_def initialState_def)

section \<open>The AI chat widget (AIChat.tsx)\<close>

text \<open>
  \<^verbatim>\<open>const addMessage = (sender: 'user' | 'ai' | 'system', content: string) => {
    const newMessage: Message = { id: Date.now().toString(), sender, content,
      timestamp: new Date().toLocaleTimeString([], { hour: '2-digit', minute: '2-digit' }) };
    setMessages(prev => [...prev, newMessage]);
  };
  const sendMessage = async () => {
    const message = inputMessage.trim();
    if (!message || isLoading) return;
    addMessage('user', message);
    setInputMessage('');
    await askQuestion(message);
  };
  const askQuestion = async (question: string) => {
    setIsLoading(true);
    try {
      const response = await fetch(`http://localhost:8000/ask?q=${encodeURIComponent(question)}&ticker=${currentTicker}`);
      ...
  const handleQuickQuestion = (question: string) => {
    const formattedQuestion = question.replace('{ticker}', currentTicker);
    askQuestion(formattedQuestion);
  };\<close>

  The model covers what each handler does before its request settles. The state holds the
  message list, the selected ticker, the input field, the loading flag and the log of the
  requests sent to the \<open>/ask\<close> endpoint, each recorded by its two query parameters. The
  clock readings that \<open>addMessage\<close> takes are a parameter.
\<close>

datatype sender = User | Ai | System

record Message =
  msg_id :: string
  msg_sender :: sender
  content :: string
  msg_timestamp :: string

record Clock =
  nowMillis :: string
  nowTime :: string

datatype ask_request = AskRequest (ask_q: string) (ask_ticker: string)

record ChatState =
  messages :: "Message list"
  currentTicker :: string
  inputMessage :: string
  isLoading :: bool
  asked :: "ask_request list"

definition greeting :: string where
  "greeting = ''Hi! I'm your AI stock assistant. Ask me about any stock analysis, buy/sell decisions, or market insights. Select a stock above and ask away!''"

definition initialChat :: "Clock \<Rightarrow> ChatState" where
  "initialChat clock =
     \<lparr>messages = [\<lparr>msg_id = ''1'', msg_sender = Ai, content = greeting,
                    msg_timestamp = nowTime clock\<rparr>],
      currentTicker = ''RELIANCE.NS'', inputMessage = [], isLoading = False, asked = []\<rparr>"

definition quickQuestions :: "string list" where
  "quickQuestions =
     [''Should I buy {ticker} right now?'', ''What are the risks of {ticker}?'',
      ''Price target for {ticker}?'', ''Volume analysis for {ticker}?'']"

definition addMessage :: "Clock \<Rightarrow> sender \<Rightarrow> string \<Rightarrow> ChatState \<Rightarrow> ChatState" where
  "addMessage clock who text_content st =
     st\<lparr>messages := messages st @
        [\<lparr>msg_id = nowMillis clock, msg_sender = who, content = text_content,
          msg_timestamp = nowTime clock\<rparr>]\<rparr>"

text \<open>\<open>String.prototype.trim\<close> on ASCII: tab, line feed, vertical tab, form feed, carriage
  return and space are white space.\<close>

definition isWhiteSpace :: "char \<Rightarrow> bool" where
  "isWhiteSpace c = ((of_char c :: nat) \<in> {9, 10, 11, 12, 13, 32})"

definition trim :: "string \<Rightarrow> string" where
  "trim s = rev (dropWhile isWhiteSpace (rev (dropWhile isWhiteSpace s)))"

text \<open>
  \<open>String.prototype.replace\<close> with a string pattern replaces the first occurrence only, and
  reads the replacement as a template: \<open>$$\<close> stands for a dollar sign, \<open>$&\<close> for the matched
  text, \<open>$`\<close> for the text before the match and \<open>$'\<close> for the text after it.
\<close>

fun findFirst :: "string \<Rightarrow> string \<Rightarrow> (string \<times> string) option" where
  "findFirst pat [] = (if pat = [] then Some ([], []) else None)"
| "findFirst pat (c # cs) =
     (if take (length pat) (c # cs) = pat then Some ([], drop (length pat) (c # cs))
      else case findFirst pat cs of
             None \<Rightarrow> None
           | Some (before, after) \<Rightarrow> Some (c # before, after))"

fun getSubstitution :: "string \<Rightarrow> string \<Rightarrow> string \<Rightarrow> string \<Rightarrow> string" where
  "getSubstitution matched before after [] = []"
| "getSubstitution matched before after [c] = [c]"
| "getSubstitution matched before after (c # d # rest) =
     (if c = CHR ''$'' \<and> d = CHR ''$'' then CHR ''$'' # getSubstitution matched before after rest
      else if c = CHR ''$'' \<and> d = CHR ''&'' then matched @ getSubstitution matched before after rest
      else if c = CHR ''$'' \<and> d = CHR 0x60 then before @ getSubstitution matched before after rest
      else if c = CHR ''$'' \<and> d = CHR 0x27 then after @ getSubstitution matched before after rest
      else c # getSubstitution matched before after (d # rest))"

definition replace :: "string \<Rightarrow> string \<Rightarrow> string \<Rightarrow> string" where
  "replace pat replacement s =
     (case findFirst pat s of
        None \<Rightarrow> s
      | Some (before, after) \<Rightarrow> before @ getSubstitution pat before after replacement @ after)"

text \<open>The synchronous part of \<open>askQuestion\<close>: the loading flag, then the request.\<close>

definition askQuestion :: "string \<Rightarrow> ChatState \<Rightarrow> ChatState" where
  "askQuestion question st =
     st\<lparr>isLoading := True, asked := asked st @ [AskRequest question (currentTicker st)]\<rparr>"

definition sendMessage :: "Clock \<Rightarrow> ChatState \<Rightarrow> ChatState" where
  "sendMessage clock st =
     (let message = trim (inputMessage st) in
      if message = [] \<or> isLoading st then st
      else askQuestion message ((addMessage clock User message st)\<lparr>inputMessage := []\<rparr>))"

definition handleQuickQuestion :: "string \<Rightarrow> ChatState \<Rightarrow> ChatState" where
  "handleQuickQuestion question st =
     (let formattedQuestion = replace ''{ticker}'' (currentTicker st) question
      in askQuestion formattedQuestion st)"

lemma sendMessage_appends:
  "trim (inputMessage st) \<noteq> [] \<Longrightarrow> \<not> isLoading st \<Longrightarrow>
     messages (sendMessage clock st) = messages st @
       [\<lparr>msg_id = nowMillis clock, msg_sender = User, content = trim (inputMessage st),
         msg_timestamp = nowTime clock\<rparr>]
     \<and> asked (sendMessage clock st)
         = asked st @ [AskRequest (trim (inputMessage st)) (currentTicker st)]"
  by (simp add: sendMessage_def askQuestion_def addMessage_def Let_def)

text \<open>
  C9. The claim reads: a quick question is templated with the selected ticker and then
  goes the way of a typed message, which appends it to the history as a user message and
  then issues the request. \<open>handleQuickQuestion\<close> does template the question and issue the
  request, but it calls \<open>askQuestion\<close> directly and never \<open>addMessage\<close>: for every question
  and state the message list is unchanged, where \<open>sendMessage\<close> appends the user message
  (lemma \<open>sendMessage_appends\<close>). The theorem states what the code does, for every
  question and at the first canned one with the widget's initial state.
\<close>

theorem quick_question_not_appended:
  "messages (handleQuickQuestion question st) = messages st
     \<and> asked (handleQuickQuestion question st)
         = asked st @ [AskRequest (replace ''{ticker}'' (currentTicker st) question) (currentTicker st)]
     \<and> messages (handleQuickQuestion (quickQuestions ! 0) (initialChat clock))
         = messages (initialChat clock)
     \<and> length (messages (handleQuickQuestion (quickQuestions ! 0) (initialChat clock))) = 1
     \<and> asked (handleQuickQuestion (quickQuestions ! 0) (initialChat clock))
         = [AskRequest ''Should I buy RELIANCE.NS right now?'' ''RELIANCE.NS'']"
proof -
  have r: "replace ''{ticker}'' ''RELIANCE.NS'' ''Should I buy {ticker} right now?''
      = ''Should I buy RELIANCE.NS right now?''"
    by code_simp
  show ?thesis
    by (simp add: handleQuickQuestion_def askQuestion_def Let_def quickQuestions_def
        initialChat_def r)
qed

section \<open>The Yahoo quote client (src/unnamed/part_007: getStockData, getDashboardData)\<close>






record StockData =
  ticker :: string
  price :: rat
  price_change_1d :: rat
  price_change_5d :: rat
  rsi :: rat
  rsi_status :: string
  macd :: rat
  macd_signal :: rat
  ema20 :: rat
  bollinger_high :: rat
  bollinger_low :: rat
  atr :: rat
  trend :: string
  volume :: rat
  last_updated :: string














section \<open>Magnitude formatting (FastInfoCard.formatNumber, the formatters' formatNumber)\<close>

text \<open>
  \<^verbatim>\<open>const formatNumber = (value?: number) => {
    if (value === undefined || value === null) return 'N/A';
    if (value >= 1e12) return `$${(value / 1e12).toFixed(2)}T`;
    if (value >= 1e9) return `$${(value / 1e9).toFixed(2)}B`;
    if (value >= 1e6) return `$${(value / 1e6).toFixed(2)}M`;
    if (value >= 1e3) return `$${(value / 1e3).toFixed(2)}K`;
    return `$${value.toFixed(2)}`;
  };\<close>
  (src/unnamed/part_003; QueryBuilder and EnhancedDownloader repeat the five last lines),
  and in the module of formatters (src/unnamed/part_007):
  \<^verbatim>\<open>export const formatNumber = (num: number): string => {
    if (num >= 1000000) { return `${(num / 1000000).toFixed(1)}M` }
    else if (num >= 1000) { return `${(num / 1000).toFixed(1)}K` }
    else { return num.toString() }
  }\<close>

  A JavaScript number is a binary64 floating-point value. The formatters are modelled on
  the integers of magnitude below \<open>2 ^ 53\<close> (prices in whole units, volumes, market
  capitalisations), which binary64 holds exactly; so are the constants they are compared
  with and divided by. What is not exact is the quotient: \<open>value / 1e6\<close> is the binary64
  value nearest to the true quotient (ties to the even significand), and \<open>toFixed\<close> rounds
  that value, not the true quotient. The model keeps this: a binary64 value is a pair
  \<open>(m, s)\<close> of an integer and an exponent, standing for \<open>m / 2 ^ s\<close>, and the quotient of
  \<open>v\<close> by \<open>d\<close>, for \<open>0 < d \<le> v\<close>, has a significand \<open>m\<close> of 53 bits.
\<close>

fun bitLength :: "nat \<Rightarrow> nat" where
  "bitLength n = (if n = 0 then 0 else Suc (bitLength (n div 2)))"

declare bitLength.simps [simp del]

type_synonym double = "int \<times> nat"


definition fromInt :: "int \<Rightarrow> double" where
  "fromInt v = (v, 0)"

definition roundHalfEven :: "int \<Rightarrow> int \<Rightarrow> int" where
  "roundHalfEven n d =
     (if 2 * (n mod d) < d then n div d
      else if 2 * (n mod d) > d then n div d + 1
      else if even (n div d) then n div d else n div d + 1)"

definition divideDouble :: "int \<Rightarrow> int \<Rightarrow> double" where
  "divideDouble v d =
     (roundHalfEven (v * 2 ^ (53 - bitLength (nat (v div d)))) d,
      53 - bitLength (nat (v div d)))"

text \<open>
  \<open>Number.prototype.toFixed(f)\<close>: with \<open>n\<close> the integer for which \<open>n / 10 ^ f\<close> is nearest to
  the magnitude of the value (the larger one when two are as near), the digits of \<open>n\<close>,
  padded with zeros on the left to \<open>f + 1\<close> digits, get a point before the last \<open>f\<close>; a
  negative value gets a minus sign in front. (The other branch of \<open>toFixed\<close>, for values
  from \<open>10 ^ 21\<close> on, is out of the range modelled.)
\<close>

definition digitChar :: "nat \<Rightarrow> char" where
  "digitChar d = ''0123456789'' ! d"

fun showNat :: "nat \<Rightarrow> string" where
  "showNat n = (if n < 10 then [digitChar n] else showNat (n div 10) @ [digitChar (n mod 10)])"

declare showNat.simps [simp del]

definition scaledNearest :: "nat \<Rightarrow> double \<Rightarrow> nat" where
  "scaledNearest f x = nat ((2 * \<bar>fst x\<bar> * 10 ^ f + 2 ^ snd x) div 2 ^ (snd x + 1))"

definition withPoint :: "nat \<Rightarrow> string \<Rightarrow> string" where
  "withPoint f m =
     (if f = 0 then m
      else let padded = replicate (Suc f - length m) (CHR ''0'') @ m
           in take (length padded - f) padded @ ''.'' @ drop (length padded - f) padded)"

definition toFixed :: "nat \<Rightarrow> double \<Rightarrow> string" where
  "toFixed f x = (if fst x < 0 then ''-'' else []) @ withPoint f (showNat (scaledNearest f x))"

definition formatNumber :: "int option \<Rightarrow> string" where
  "formatNumber value =
     (case value of
        None \<Rightarrow> ''N/A''
      | Some v \<Rightarrow>
          if v \<ge> 10 ^ 12 then ''$'' @ toFixed 2 (divideDouble v (10 ^ 12)) @ ''T''
          else if v \<ge> 10 ^ 9 then ''$'' @ toFixed 2 (divideDouble v (10 ^ 9)) @ ''B''
          else if v \<ge> 10 ^ 6 then ''$'' @ toFixed 2 (divideDouble v (10 ^ 6)) @ ''M''
          else if v \<ge> 10 ^ 3 then ''$'' @ toFixed 2 (divideDouble v (10 ^ 3)) @ ''K''
          else ''$'' @ toFixed 2 (fromInt v))"







lemmas eval_defs = formatNumber_def toFixed_def withPoint_def scaledNearest_def divideDouble_def
  roundHalfEven_def fromInt_def digitChar_def bitLength.simps showNat.simps


subsection \<open>What the two roundings compute\<close>


lemma bitLength_le: "n < 2 ^ k \<Longrightarrow> bitLength n \<le> k"
proof (induction k arbitrary: n)
  case 0
  then show ?case by (simp add: bitLength.simps)
next
  case (Suc k)
  then have "n div 2 < 2 ^ k" by simp
  then have "bitLength (n div 2) \<le> k" by (rule Suc.IH)
  then show ?case by (subst bitLength.simps) simp
qed



lemma bitLength_pos: "0 < n \<Longrightarrow> 0 < bitLength n"
  by (subst bitLength.simps) simp

lemma bitLength_bounds: "0 < n \<Longrightarrow> 2 ^ (bitLength n - 1) \<le> n \<and> n < 2 ^ bitLength n"
proof (induction n rule: bitLength.induct)
  case (1 n)
  have bn: "bitLength n = Suc (bitLength (n div 2))"
    using "1.prems" by (subst bitLength.simps) simp
  show ?case
  proof (cases "n div 2 = 0")
    case True
    with "1.prems" have "n = 1" by simp
    then show ?thesis by (simp add: bitLength.simps)
  next
    case False
    then have h: "0 < n div 2" by simp
    from "1.prems" have "n \<noteq> 0" by simp
    from "1.IH" [OF this h]
    have lo: "2 ^ (bitLength (n div 2) - 1) \<le> n div 2" and hi: "n div 2 < 2 ^ bitLength (n div 2)"
      by simp_all
    from bitLength_pos [OF h] obtain b where b: "bitLength (n div 2) = Suc b"
      by (cases "bitLength (n div 2)") simp_all
    from lo have "2 * 2 ^ b \<le> 2 * (n div 2)" by (simp add: b)
    also have "\<dots> \<le> n" by simp
    finally have lo': "2 ^ Suc b \<le> n" by simp
    from hi have "n div 2 + 1 \<le> 2 ^ Suc b" by (simp add: b)
    then have "2 * (n div 2) + 2 \<le> 2 * 2 ^ Suc b" by simp
    moreover have "n < 2 * (n div 2) + 2" by simp
    ultimately have hi': "n < 2 ^ Suc (Suc b)" by simp
    from lo' hi' show ?thesis by (simp add: bn b)
  qed
qed

lemma div_times_le: "0 < (d :: int) \<Longrightarrow> v div d * d \<le> v"
proof -
  assume d: "0 < d"
  have "v div d * d + v mod d = v" by simp
  moreover have "0 \<le> v mod d" using d by simp
  ultimately show ?thesis by linarith
qed

lemma le_div_int: "0 < (d :: int) \<Longrightarrow> c * d \<le> n \<Longrightarrow> c \<le> n div d"
  using zdiv_mono1 by fastforce

lemma div_less_int: "0 < (d :: int) \<Longrightarrow> n < c * d \<Longrightarrow> n div d < c"
proof (rule ccontr)
  assume d: "0 < d" and n: "n < c * d" and "\<not> n div d < c"
  then have "c \<le> n div d" by simp
  then have "c * d \<le> n div d * d" using d by (simp add: mult_right_mono)
  with div_times_le [OF d, of n] n show False by linarith
qed

text \<open>
  The quotient's significand has 53 bits: the pair that \<open>divideDouble\<close> returns is a
  binary64 value, and by \<open>divideDouble_error\<close> it is one nearest to the true quotient.
\<close>

lemma significand_range:
  assumes "0 < d" "d \<le> v" "v div d < 2 ^ 53"
  shows "2 ^ 52 \<le> fst (divideDouble v d) \<and> fst (divideDouble v d) \<le> 2 ^ 53"
proof -
  define k where "k = nat (v div d)"
  define e where "e = bitLength k"
  define s where "s = 53 - e"
  have "0 < v div d" using assms by (simp add: pos_imp_zdiv_pos_iff)
  then have kd: "int k = v div d" and kpos: "0 < k" by (simp_all add: k_def)
  from bitLength_bounds [OF kpos] have lo: "2 ^ (e - 1) \<le> k" and hi: "k < 2 ^ e"
    by (simp_all add: e_def)
  have epos: "0 < e" unfolding e_def by (rule bitLength_pos [OF kpos])
  have e53: "e \<le> 53"
  proof -
    have "k < 2 ^ 53" using assms(3) by (simp add: k_def nat_less_iff)
    then show ?thesis unfolding e_def by (rule bitLength_le)
  qed
  have es: "e - 1 + s = 52" "e + s = 53" using epos e53 by (simp_all add: s_def)
  have v1: "int k * d \<le> v" unfolding kd by (rule div_times_le [OF assms(1)])
  have v2: "v < (int k + 1) * d"
  proof -
    have a: "v = v div d * d + v mod d" by simp
    have b: "v mod d < d" using assms(1) by simp
    have "(v div d + 1) * d = v div d * d + d" by (simp add: algebra_simps)
    with a b show ?thesis unfolding kd by linarith
  qed
  define n where "n = v * 2 ^ s"
  have lo': "(2 :: int) ^ (e - 1) \<le> int k" using lo by simp
  have hi': "int k + 1 \<le> 2 ^ e" using hi linorder_not_less by fastforce
  have "(2 :: int) ^ 52 * d = (2 ^ (e - 1) * d) * 2 ^ s"
    by (simp add: power_add [symmetric] es mult.commute mult.left_commute flip: es(1))
  also have "\<dots> \<le> (int k * d) * 2 ^ s"
    using lo' assms(1) by (intro mult_right_mono) simp_all
  also have "\<dots> \<le> n" unfolding n_def using v1 by (intro mult_right_mono) simp_all
  finally have nlo: "2 ^ 52 * d \<le> n" .
  have "n < ((int k + 1) * d) * 2 ^ s"
    unfolding n_def using v2 by (intro mult_strict_right_mono) simp_all
  also have "\<dots> \<le> (2 ^ e * d) * 2 ^ s"
    using hi' assms(1) by (intro mult_right_mono) simp_all
  also have "\<dots> = 2 ^ 53 * d"
    by (simp add: mult.commute mult.left_commute flip: es(2) power_add)
  finally have nhi: "n < 2 ^ 53 * d" .
  have q1: "2 ^ 52 \<le> n div d" by (rule le_div_int [OF assms(1) nlo])
  have q2: "n div d < 2 ^ 53" by (rule div_less_int [OF assms(1) nhi])
  have "fst (divideDouble v d) = roundHalfEven n d"
    by (simp add: divideDouble_def n_def s_def e_def k_def)
  moreover have "roundHalfEven n d = n div d \<or> roundHalfEven n d = n div d + 1"
    by (simp add: roundHalfEven_def)
  ultimately show ?thesis using q1 q2 by auto
qed












lemma formatNumber_double_rounding:
  "formatNumber (Some 1005000) = ''$1.00M'' \<and> formatNumber (Some 1015000) = ''$1.01M''"
  by (simp add: eval_defs)

subsection \<open>The claim about the ladder\<close>




end
